theory Spec2Isabelle
  imports Complex_Main "HOL-Library.Word"
begin

section \<open>The example client's utilities: \<open>example_client/client_utils.py\<close>\<close>

subsection \<open>Numbers and errors\<close>

text \<open>
  The latency samples and every statistic derived from them are modelled as exact real
  numbers; the binary rounding error of IEEE double arithmetic is outside the model.
  What the model does keep of numpy's \<open>float64\<close> are the three special values the program
  can print: dividing by a zero statistic gives an infinity (numpy warns, it does not raise),
  and the statistics of an empty array are NaN.
\<close>

datatype npfloat = Fin real | PosInf | NegInf | NaN

datatype pyerror =
    ValueError string
  | FileNotFoundError string
  | PermissionError string

text \<open>
  \<open>1000 * batch_size / t\<close>: a Python int divided by a numpy float. A zero divisor yields an
  infinity of the sign of the dividend, or NaN for \<open>0 / 0\<close>.
\<close>

fun truediv :: "int \<Rightarrow> npfloat \<Rightarrow> npfloat" where
  "truediv n (Fin t) =
     (if t = 0 then (if 0 < n then PosInf else if n < 0 then NegInf else NaN)
      else Fin (real_of_int n / t))"
| "truediv n PosInf = Fin 0"
| "truediv n NegInf = Fin 0"
| "truediv n NaN = NaN"

text \<open>Rounding to the nearest integer, ties to the even neighbour (numpy's \<open>rint\<close>).\<close>

definition rint :: "real \<Rightarrow> int" where
  "rint x =
     (let f = \<lfloor>x\<rfloor>; d = x - of_int f
      in if d < 1 / 2 then f
         else if 1 / 2 < d then f + 1
         else if even f then f else f + 1)"

text \<open>
  \<open>round(x, 2)\<close> on a numpy float: scale by 100, round to the nearest integer, scale back.
  Infinities and NaN pass through unchanged. The \<open>{:.2f}\<close> format then shows the two
  decimals of the rounded value.
\<close>

fun round2 :: "npfloat \<Rightarrow> npfloat" where
  "round2 (Fin x) = Fin (of_int (rint (x * 100)) / 100)"
| "round2 PosInf = PosInf"
| "round2 NegInf = NegInf"
| "round2 NaN = NaN"

subsection \<open>The numpy reductions the report uses\<close>

text \<open>
  These follow numpy's documented definitions. On an empty array \<open>average\<close>, \<open>median\<close>,
  \<open>percentile\<close>, \<open>std\<close> and \<open>var\<close> return NaN (with a warning), while \<open>max\<close> and \<open>min\<close> raise
  \<open>ValueError\<close>.
\<close>

definition mean :: "real list \<Rightarrow> real" where
  "mean xs = sum_list xs / real (length xs)"

definition np_average :: "real list \<Rightarrow> pyerror + npfloat" where
  "np_average xs = (if xs = [] then Inr NaN else Inr (Fin (mean xs)))"

text \<open>The middle order statistic, or the mean of the two middle ones.\<close>

definition median :: "real list \<Rightarrow> real" where
  "median xs =
     (let s = sort xs; n = length xs
      in if odd n then s ! (n div 2)
         else (s ! (n div 2 - 1) + s ! (n div 2)) / 2)"

definition np_median :: "real list \<Rightarrow> pyerror + npfloat" where
  "np_median xs = (if xs = [] then Inr NaN else Inr (Fin (median xs)))"

definition np_max :: "real list \<Rightarrow> pyerror + npfloat" where
  "np_max xs =
     (if xs = []
      then Inl (ValueError
             ''zero-size array to reduction operation maximum which has no identity'')
      else Inr (Fin (Max (set xs))))"

definition np_min :: "real list \<Rightarrow> pyerror + npfloat" where
  "np_min xs =
     (if xs = []
      then Inl (ValueError
             ''zero-size array to reduction operation minimum which has no identity'')
      else Inr (Fin (Min (set xs))))"

text \<open>
  Linear interpolation between two neighbouring order statistics, written with the two
  branches numpy uses (from the left below one half, from the right otherwise).
\<close>

definition lerp :: "real \<Rightarrow> real \<Rightarrow> real \<Rightarrow> real" where
  "lerp a b t = (if t < 1 / 2 then a + (b - a) * t else b - (b - a) * (1 - t))"

text \<open>
  \<open>np.percentile(xs, q)\<close> with the default linear method: the virtual index is
  \<open>(n - 1) * q / 100\<close>; its integer part selects the lower neighbour in the sorted
  samples and its fractional part is the interpolation weight.
\<close>

definition percentile :: "real list \<Rightarrow> nat \<Rightarrow> real" where
  "percentile xs q =
     (let s = sort xs; n = length xs;
          pos = (n - 1) * q;
          lo = pos div 100;
          hi = min (lo + 1) (n - 1);
          g = real (pos mod 100) / 100
      in lerp (s ! lo) (s ! hi) g)"

definition np_percentile :: "real list \<Rightarrow> nat \<Rightarrow> pyerror + npfloat" where
  "np_percentile xs q =
     (if 100 < q then Inl (ValueError ''Percentiles must be in the range [0, 100]'')
      else if xs = [] then Inr NaN
      else Inr (Fin (percentile xs q)))"

text \<open>\<open>np.var\<close> and \<open>np.std\<close> with their default \<open>ddof = 0\<close>.\<close>

definition variance :: "real list \<Rightarrow> real" where
  "variance xs = mean (map (\<lambda>x. (x - mean xs)\<^sup>2) xs)"

definition np_var :: "real list \<Rightarrow> pyerror + npfloat" where
  "np_var xs = (if xs = [] then Inr NaN else Inr (Fin (variance xs)))"

definition np_std :: "real list \<Rightarrow> pyerror + npfloat" where
  "np_std xs = (if xs = [] then Inr NaN else Inr (Fin (sqrt (variance xs))))"

subsection \<open>\<open>print_statistics\<close>\<close>

text \<open>
  One printed line of the report. A line carries its labels and the rounded values handed
  to the format string.
\<close>

datatype line =
    Header
  | TimeSpeed string string npfloat npfloat
  | TimeOnly string npfloat

text \<open>
  The arguments of a \<open>print\<close> call are evaluated before anything is written, so a statistic
  that raises leaves its line unwritten.
\<close>

fun time_speed :: "string \<Rightarrow> string \<Rightarrow> int \<Rightarrow> pyerror + npfloat \<Rightarrow> pyerror + line" where
  "time_speed tlabel slabel batch_size (Inl e) = Inl e"
| "time_speed tlabel slabel batch_size (Inr t) =
     Inr (TimeSpeed tlabel slabel (round2 t) (round2 (truediv (1000 * batch_size) t)))"

fun time_only :: "string \<Rightarrow> pyerror + npfloat \<Rightarrow> pyerror + line" where
  "time_only tlabel (Inl e) = Inl e"
| "time_only tlabel (Inr t) = Inr (TimeOnly tlabel (round2 t))"

text \<open>
  The statements run in order on the standard output written so far; the first one that
  raises ends the call, and what was written before it stays written.
\<close>

fun run_prints :: "(pyerror + line) list \<Rightarrow> line list \<Rightarrow> line list \<times> pyerror option" where
  "run_prints [] out = (out, None)"
| "run_prints (Inl e # rest) out = (out, Some e)"
| "run_prints (Inr l # rest) out = run_prints rest (out @ [l])"

definition print_statistics :: "real list \<Rightarrow> int \<Rightarrow> line list \<times> pyerror option" where
  "print_statistics processing_times batch_size =
     run_prints
       [Inr Header,
        time_speed ''average time'' ''average speed'' batch_size (np_average processing_times),
        time_speed ''median time'' ''median speed'' batch_size (np_median processing_times),
        time_speed ''max time'' ''min speed'' batch_size (np_max processing_times),
        time_speed ''min time'' ''max speed'' batch_size (np_min processing_times),
        time_speed ''time percentile 90'' ''speed percentile 90'' batch_size
          (np_percentile processing_times 90),
        time_speed ''time percentile 50'' ''speed percentile 50'' batch_size
          (np_percentile processing_times 50),
        time_only ''time standard deviation'' (np_std processing_times),
        time_only ''time variance'' (np_var processing_times)]
       []"

subsection \<open>\<open>prepare_certs\<close>\<close>

text \<open>
  The file system as the call sees it: a path names nothing, a file that cannot be opened
  for reading, or a readable file with its bytes.
\<close>

type_synonym bytes = "8 word list"

datatype fentry = Regular bytes | Denied

type_synonym filesystem = "string \<rightharpoonup> fentry"

text \<open>\<open>open(path, 'rb')\<close> followed by \<open>read()\<close>. The error names the path.\<close>

definition open_rb :: "filesystem \<Rightarrow> string \<Rightarrow> pyerror + bytes" where
  "open_rb fs path =
     (case fs path of
        None \<Rightarrow> Inl (FileNotFoundError path)
      | Some Denied \<Rightarrow> Inl (PermissionError path)
      | Some (Regular content) \<Rightarrow> Inr content)"

text \<open>
  One \<open>if ... is not None: with open(...) as f: ... = f.read()\<close> block. The list threaded
  through is the log of the paths handed to \<open>open\<close> so far.
\<close>

fun load_slot ::
  "filesystem \<Rightarrow> string option \<Rightarrow> string list \<Rightarrow> string list \<times> (pyerror + bytes option)" where
  "load_slot fs None opened = (opened, Inr None)"
| "load_slot fs (Some path) opened =
     (opened @ [path],
      case open_rb fs path of Inl e \<Rightarrow> Inl e | Inr content \<Rightarrow> Inr (Some content))"

definition prepare_certs ::
  "filesystem \<Rightarrow> string option \<Rightarrow> string option \<Rightarrow> string option \<Rightarrow>
   string list \<times> (pyerror + bytes option \<times> bytes option \<times> bytes option)" where
  "prepare_certs fs server_cert client_key client_ca =
     (case load_slot fs server_cert [] of
        (o1, Inl e) \<Rightarrow> (o1, Inl e)
      | (o1, Inr sc) \<Rightarrow>
          (case load_slot fs client_key o1 of
             (o2, Inl e) \<Rightarrow> (o2, Inl e)
           | (o2, Inr ck) \<Rightarrow>
               (case load_slot fs client_ca o2 of
                  (o3, Inl e) \<Rightarrow> (o3, Inl e)
                | (o3, Inr ca) \<Rightarrow> (o3, Inr (sc, ck, ca)))))"

text \<open>What a slot holds when its load succeeds, and when a slot can be loaded at all.\<close>

fun slot_content :: "filesystem \<Rightarrow> string option \<Rightarrow> bytes option" where
  "slot_content fs None = None"
| "slot_content fs (Some path) =
     (case fs path of Some (Regular content) \<Rightarrow> Some content | _ \<Rightarrow> None)"

fun loadable :: "filesystem \<Rightarrow> string option \<Rightarrow> bool" where
  "loadable fs None = True"
| "loadable fs (Some path) =
     (case fs path of Some (Regular content) \<Rightarrow> True | _ \<Rightarrow> False)"

text \<open>The error \<open>open\<close> raises on a path that is missing or unreadable.\<close>

definition open_error :: "filesystem \<Rightarrow> string \<Rightarrow> pyerror" where
  "open_error fs path =
     (case fs path of Some Denied \<Rightarrow> PermissionError path | _ \<Rightarrow> FileNotFoundError path)"

text \<open>The supplied paths in slot order, and the first of them that cannot be loaded.\<close>

definition supplied :: "string option list \<Rightarrow> string list" where
  "supplied slots = concat (map (\<lambda>s. case s of None \<Rightarrow> [] | Some p \<Rightarrow> [p]) slots)"

definition first_failure :: "filesystem \<Rightarrow> string option list \<Rightarrow> string option" where
  "first_failure fs slots = find (\<lambda>p. \<not> loadable fs (Some p)) (supplied slots)"

section \<open>The version resolution contract exercised by the functional tests\<close>

text \<open>
  \<open>tests/functional/test_model_versions_handling.py\<close> talks to a serving endpoint whose
  code is not part of these sources. The endpoint is modelled from the contract's text.
\<close>

datatype ModelVersionState = LOADING | AVAILABLE | LOAD_FAILED

datatype ErrorCode = OK | UNKNOWN

record ModelVersionStatus =
  version :: nat
  state :: ModelVersionState
  error_code :: ErrorCode
  error_message :: string

datatype resolution = Resolved nat | VersionNotFound

text \<open>
  Modelled from the spec: the serving endpoint's version bookkeeping is missing from the
  sources. A model name tracks a list of version statuses; the available versions are
  those in state \<open>AVAILABLE\<close>.
\<close>

definition available_versions :: "ModelVersionStatus list \<Rightarrow> nat list" where
  "available_versions tracked = map version (filter (\<lambda>s. state s = AVAILABLE) tracked)"

text \<open>
  Modelled from the spec: the endpoint's default-version rule is missing from the sources.
  The default is the version with the maximum numeric id among the available ones; with
  no available version there is none.
\<close>

fun default_version :: "nat list \<Rightarrow> nat option" where
  "default_version [] = None"
| "default_version (v # vs) = Some (fold max vs v)"

text \<open>
  Modelled from the spec: the endpoint's resolution of an inference or metadata request is
  missing from the sources. An explicit version is served if it is available and is
  \<open>VERSION_NOT_FOUND\<close> otherwise; no version resolves to the single default version.
\<close>

fun resolve :: "ModelVersionStatus list \<Rightarrow> nat option \<Rightarrow> resolution" where
  "resolve tracked (Some v) =
     (if v \<in> set (available_versions tracked) then Resolved v else VersionNotFound)"
| "resolve tracked None =
     (case default_version (available_versions tracked) of
        None \<Rightarrow> VersionNotFound
      | Some v \<Rightarrow> Resolved v)"

text \<open>
  Modelled from the spec: the endpoint's status request is missing from the sources. An
  explicit version yields that version's entry if it is available and is
  \<open>VERSION_NOT_FOUND\<close> otherwise; no version yields the entries of all tracked versions.
\<close>

fun get_model_status :: "ModelVersionStatus list \<Rightarrow> nat option \<Rightarrow> ModelVersionStatus list option" where
  "get_model_status tracked (Some v) =
     (if v \<in> set (available_versions tracked)
      then Some (filter (\<lambda>s. version s = v \<and> state s = AVAILABLE) tracked)
      else None)"
| "get_model_status tracked None = Some tracked"

text \<open>
  The assertions of \<open>test_get_model_status\<close> on a response, for the parameter \<open>version\<close>.
  Reading entry 0 of an empty response raises, which fails the test. The table
  \<open>ERROR_MESSAGE\<close> of the test utilities is not in the sources and is a parameter.
\<close>

definition test_get_model_status ::
  "(ModelVersionState \<Rightarrow> ErrorCode \<Rightarrow> string) \<Rightarrow> ModelVersionStatus list \<Rightarrow> nat option \<Rightarrow> bool" where
  "test_get_model_status ERROR_MESSAGE versions_statuses requested =
     (case versions_statuses of
        [] \<Rightarrow> False
      | version_status # _ \<Rightarrow>
          (case requested of
             None \<Rightarrow> length versions_statuses = 2
           | Some v \<Rightarrow> version version_status = v)
          \<and> state version_status = AVAILABLE
          \<and> error_code version_status = OK
          \<and> error_message version_status = ERROR_MESSAGE AVAILABLE OK)"

text \<open>
  The server the tests start (\<open>start_server_multi_model\<close>) serves the model
  \<open>pvb_face_multi_version\<close> in versions 1 and 2. A tracked state of this shape, with an
  empty message for the pair \<open>AVAILABLE\<close>/\<open>OK\<close>:
\<close>

definition two_versions :: "ModelVersionStatus list" where
  "two_versions =
     [\<lparr>version = 1, state = AVAILABLE, error_code = OK, error_message = ''''\<rparr>,
      \<lparr>version = 2, state = AVAILABLE, error_code = OK, error_message = ''''\<rparr>]"

section \<open>Properties of the report\<close>

subsection \<open>The report as a whole\<close>


lemma report_of_nonempty:
  assumes "S \<noteq> []"
  shows "print_statistics S B =
     ([Header,
       TimeSpeed ''average time'' ''average speed''
         (round2 (Fin (mean S))) (round2 (truediv (1000 * B) (Fin (mean S)))),
       TimeSpeed ''median time'' ''median speed''
         (round2 (Fin (median S))) (round2 (truediv (1000 * B) (Fin (median S)))),
       TimeSpeed ''max time'' ''min speed''
         (round2 (Fin (Max (set S)))) (round2 (truediv (1000 * B) (Fin (Max (set S))))),
       TimeSpeed ''min time'' ''max speed''
         (round2 (Fin (Min (set S)))) (round2 (truediv (1000 * B) (Fin (Min (set S))))),
       TimeSpeed ''time percentile 90'' ''speed percentile 90''
         (round2 (Fin (percentile S 90))) (round2 (truediv (1000 * B) (Fin (percentile S 90)))),
       TimeSpeed ''time percentile 50'' ''speed percentile 50''
         (round2 (Fin (percentile S 50))) (round2 (truediv (1000 * B) (Fin (percentile S 50)))),
       TimeOnly ''time standard deviation'' (round2 (Fin (sqrt (variance S)))),
       TimeOnly ''time variance'' (round2 (Fin (variance S)))],
      None)"
  using assms
  by (simp add: print_statistics_def np_average_def np_median_def np_max_def np_min_def
      np_percentile_def np_std_def np_var_def del: round2.simps truediv.simps)

text \<open>The example of the specification: five samples, batch size 4.\<close>

lemma example_mean: "mean [10, 20, 30, 40, 50] = 30"
  by (simp add: mean_def)

lemma example_rows:
  "take 5 (fst (print_statistics [10, 20, 30, 40, 50] 4)) =
     [Header,
      TimeSpeed ''average time'' ''average speed'' (Fin 30) (Fin (13333 / 100)),
      TimeSpeed ''median time'' ''median speed'' (Fin 30) (Fin (13333 / 100)),
      TimeSpeed ''max time'' ''min speed'' (Fin 50) (Fin 80),
      TimeSpeed ''min time'' ''max speed'' (Fin 10) (Fin 400)]"
  by (simp add: report_of_nonempty mean_def median_def rint_def Let_def)

subsection \<open>Rounding\<close>



lemma rint_zero: "rint 0 = 0"
  by (simp add: rint_def)


subsection \<open>Order statistics\<close>




lemma variance_single: "variance [x] = 0"
  by (simp add: variance_def mean_def)



subsection \<open>Empty input\<close>






subsection \<open>Throughput\<close>






subsection \<open>Median, percentile, deviation\<close>



text \<open>
  C10. The variance reported is the population variance: for a non-empty sample sequence
  \<open>np.var\<close> is the mean of the squared deviations from the mean (divisor \<open>N\<close>), \<open>np.std\<close> is
  its square root, the last two lines of the report show these two values rounded, and for
  a single sample both are shown as 0.00.
\<close>

theorem print_statistics_population_variance:
  assumes "S \<noteq> []"
  shows "np_var S =
           Inr (Fin ((\<Sum>x\<leftarrow>S. (x - (\<Sum>y\<leftarrow>S. y) / real (length S))\<^sup>2) / real (length S)))
       \<and> np_std S =
           Inr (Fin (sqrt ((\<Sum>x\<leftarrow>S. (x - (\<Sum>y\<leftarrow>S. y) / real (length S))\<^sup>2) / real (length S))))
       \<and> (\<exists>sd vr. np_std S = Inr sd \<and> np_var S = Inr vr \<and>
            drop 7 (fst (print_statistics S B)) =
              [TimeOnly ''time standard deviation'' (round2 sd),
               TimeOnly ''time variance'' (round2 vr)])
       \<and> drop 7 (fst (print_statistics [x] B)) =
           [TimeOnly ''time standard deviation'' (Fin 0), TimeOnly ''time variance'' (Fin 0)]"
proof (intro conjI)
  show "np_var S =
          Inr (Fin ((\<Sum>x\<leftarrow>S. (x - (\<Sum>y\<leftarrow>S. y) / real (length S))\<^sup>2) / real (length S)))"
    using assms by (simp add: np_var_def variance_def mean_def)
  show "np_std S =
          Inr (Fin (sqrt ((\<Sum>x\<leftarrow>S. (x - (\<Sum>y\<leftarrow>S. y) / real (length S))\<^sup>2) / real (length S))))"
    using assms by (simp add: np_std_def variance_def mean_def)
  show "\<exists>sd vr. np_std S = Inr sd \<and> np_var S = Inr vr \<and>
            drop 7 (fst (print_statistics S B)) =
              [TimeOnly ''time standard deviation'' (round2 sd),
               TimeOnly ''time variance'' (round2 vr)]"
    using assms by (simp add: report_of_nonempty np_var_def np_std_def)
  show "drop 7 (fst (print_statistics [x] B)) =
          [TimeOnly ''time standard deviation'' (Fin 0), TimeOnly ''time variance'' (Fin 0)]"
    by (simp add: report_of_nonempty variance_single rint_zero)
qed

theorem print_statistics_population_variance_witness:
  "np_var [1, 3] = Inr (Fin 1) \<and> np_std [1, 3] = Inr (Fin 1)"
  using print_statistics_population_variance [of "[1, 3]" 1 0] by simp

section \<open>Properties of the credential loader\<close>

lemma load_slot_loadable:
  assumes "loadable fs s"
  shows "load_slot fs s opened = (opened @ supplied [s], Inr (slot_content fs s))"
  using assms
  by (cases s) (auto simp add: open_rb_def supplied_def split: option.splits fentry.splits)

lemma prepare_certs_all_loadable:
  assumes "loadable fs a" and "loadable fs b" and "loadable fs c"
  shows "prepare_certs fs a b c =
           (supplied [a, b, c], Inr (slot_content fs a, slot_content fs b, slot_content fs c))"
  using assms by (simp add: prepare_certs_def load_slot_loadable supplied_def)

lemma prepare_certs_some_failure:
  assumes "\<not> (loadable fs a \<and> loadable fs b \<and> loadable fs c)"
  shows "\<exists>p. first_failure fs [a, b, c] = Some p \<and>
             snd (prepare_certs fs a b c) = Inl (open_error fs p)"
  using assms
  by (cases a; cases b; cases c)
    (auto simp add: prepare_certs_def first_failure_def supplied_def open_rb_def open_error_def
      split: option.splits fentry.splits)

text \<open>
  C7. \<open>prepare_certs\<close> returns a triple exactly when every supplied path names a readable
  file, and the triple then holds, slot by slot, the content of the file for a supplied path
  and nothing for a path not supplied: a readable file's slot is its bytes, unchanged, and
  a slot of the result is absent if and only if its path was not supplied.
\<close>

theorem prepare_certs_returns_file_contents:
  "(snd (prepare_certs fs server_cert client_key client_ca) = Inr (sc, ck, ca) \<longleftrightarrow>
      loadable fs server_cert \<and> loadable fs client_key \<and> loadable fs client_ca \<and>
      sc = slot_content fs server_cert \<and> ck = slot_content fs client_key \<and>
      ca = slot_content fs client_ca)
   \<and> (\<forall>path content. fs path = Some (Regular content) \<longrightarrow>
         loadable fs (Some path) \<and> slot_content fs (Some path) = Some content)
   \<and> (\<forall>slot. loadable fs slot \<longrightarrow> (slot_content fs slot = None \<longleftrightarrow> slot = None))"
proof (intro conjI allI impI)
  show "snd (prepare_certs fs server_cert client_key client_ca) = Inr (sc, ck, ca) \<longleftrightarrow>
      loadable fs server_cert \<and> loadable fs client_key \<and> loadable fs client_ca \<and>
      sc = slot_content fs server_cert \<and> ck = slot_content fs client_key \<and>
      ca = slot_content fs client_ca"
  proof (cases "loadable fs server_cert \<and> loadable fs client_key \<and> loadable fs client_ca")
    case True
    then show ?thesis
      by (auto simp add: prepare_certs_all_loadable)
  next
    case False
    then show ?thesis
      using prepare_certs_some_failure [OF False] by auto
  qed
next
  fix path content
  assume "fs path = Some (Regular content)"
  then show "loadable fs (Some path)" and "slot_content fs (Some path) = Some content"
    by simp_all
next
  fix slot
  assume "loadable fs slot"
  then show "slot_content fs slot = None \<longleftrightarrow> slot = None"
    by (cases slot) (auto split: option.splits fentry.splits)
qed

theorem prepare_certs_returns_file_contents_witness:
  "snd (prepare_certs [''server.pem'' \<mapsto> Regular [1, 2, 3], ''ca.pem'' \<mapsto> Regular [4]]
          (Some ''server.pem'') None (Some ''ca.pem''))
     = Inr (Some [1, 2, 3], None, Some [4])"
  using prepare_certs_returns_file_contents
    [of "[''server.pem'' \<mapsto> Regular [1, 2, 3], ''ca.pem'' \<mapsto> Regular [4]]"
        "Some ''server.pem''" None "Some ''ca.pem''" "Some [1, 2, 3]" None "Some [4]"]
  by simp




text \<open>
  C9. With no path supplied \<open>prepare_certs\<close> returns three absent slots, and no path has
  been handed to \<open>open\<close>.
\<close>

theorem prepare_certs_nothing_supplied:
  "prepare_certs fs None None None = ([], Inr (None, None, None))"
  by (simp add: prepare_certs_def)

section \<open>Properties of the version resolution contract\<close>

lemma default_version_Max:
  "default_version vs = (if vs = [] then None else Some (Max (set vs)))"
  by (cases vs) (simp_all add: Max.set_eq_fold [symmetric])

lemma resolve_default_is_greatest:
  assumes "resolve tracked None = Resolved v"
  shows "v \<in> set (available_versions tracked) \<and> (\<forall>w\<in>set (available_versions tracked). w \<le> v)"
proof -
  let ?vs = "available_versions tracked"
  have "?vs \<noteq> []" and "v = Max (set ?vs)"
    using assms by (auto simp add: default_version_Max split: if_splits)
  then show ?thesis
    by (metis List.finite_set Max_ge Max_in set_empty)
qed

lemma two_tracked:
  assumes "length tracked = 2"
  obtains s1 s2 where "tracked = [s1, s2]"
  using assms by (cases tracked; cases "tl tracked") auto

text \<open>
  C6. For a model that tracks exactly the versions 1 and 2, both \<open>AVAILABLE\<close>: a status
  request without a version returns the entries of all tracked versions, two of them; an
  inference or metadata request without a version resolves to version 2, the greatest
  available one, while an explicit version resolves to itself; and the responses pass the
  assertions of \<open>test_get_model_status\<close> for each of its three parameters when the entries
  carry the code \<open>OK\<close> and the expected message.
\<close>

theorem two_available_versions:
  assumes "length tracked = 2"
    and "version ` set tracked = {1, 2}"
    and "\<forall>s\<in>set tracked. state s = AVAILABLE"
  shows "get_model_status tracked None = Some tracked
       \<and> resolve tracked None = Resolved 2
       \<and> resolve tracked (Some 1) = Resolved 1
       \<and> resolve tracked (Some 2) = Resolved 2
       \<and> ((\<forall>s\<in>set tracked. error_code s = OK \<and> error_message s = ERROR_MESSAGE AVAILABLE OK)
            \<longrightarrow> (\<forall>requested\<in>{None, Some 1, Some 2}.
                   \<exists>response. get_model_status tracked requested = Some response \<and>
                     test_get_model_status ERROR_MESSAGE response requested))"
proof -
  obtain s1 s2 where t: "tracked = [s1, s2]"
    using assms(1) by (rule two_tracked)
  have st: "state s1 = AVAILABLE" "state s2 = AVAILABLE"
    using assms(3) t by simp_all
  have "{version s1, version s2} = {1, 2}"
    using assms(2) t by simp
  then consider "version s1 = 1" "version s2 = 2" | "version s1 = 2" "version s2 = 1"
    by (auto simp add: doubleton_eq_iff)
  then show ?thesis
  proof cases
    case 1
    then show ?thesis
      using t st by (simp add: available_versions_def test_get_model_status_def)
  next
    case 2
    then show ?thesis
      using t st by (simp add: available_versions_def test_get_model_status_def)
  qed
qed

theorem two_available_versions_witness:
  "(\<exists>response. get_model_status two_versions None = Some response \<and> length response = 2)
   \<and> resolve two_versions None = Resolved 2
   \<and> test_get_model_status (\<lambda>s c. '''') two_versions None"
proof -
  have h: "length two_versions = 2" "version ` set two_versions = {1, 2}"
    "\<forall>s\<in>set two_versions. state s = AVAILABLE"
    by (simp_all add: two_versions_def)
  have m: "\<forall>s\<in>set two_versions. error_code s = OK \<and> error_message s = (\<lambda>s c. '''') AVAILABLE OK"
    by (simp add: two_versions_def)
  show ?thesis
    using two_available_versions [OF h, of "\<lambda>s c. ''''"] m h(1) by auto
qed

end
